theory Spec2Isabelle
  imports Complex_Main "HOL-Library.Word"
begin

unbundle bit_operations_syntax

section \<open>The INA220 power-monitor driver (upyb\_INA220.py)\<close>

text \<open>
  Python integers are modelled by \<open>int\<close> (with the bitwise operations of HOL, which
  agree with Python's on arbitrary integers), the bytes of a bus transaction by
  \<open>8 word\<close>, and Python floats by \<open>real\<close>: the two LSB factors are the exact
  decimals \<open>0.004\<close> and \<open>0.000010\<close>, and binary rounding is not modelled.
\<close>

type_synonym byte = "8 word"

text \<open>The exceptions the driver itself can raise.\<close>

datatype error = UnboundLocalError | ZeroDivisionError

subsection \<open>The collaborators: I2C transport, strobe pin, clock\<close>

text \<open>
  The I2C object handed to the constructor is a state machine over a bus state \<open>'t\<close>.
  \<open>writeto_mem addr reg data\<close> answers what the bus stack reports (the driver stores
  it in \<open>bytes_sent\<close> and never looks at it); \<open>readfrom_mem addr reg 2\<close> answers a
  bytes object of the two bytes asked for. Both are assumed to return.
\<close>

record 't i2c =
  writeto_mem :: "'t \<Rightarrow> int \<Rightarrow> int \<Rightarrow> byte list \<Rightarrow> 't \<times> int"
  readfrom_mem :: "'t \<Rightarrow> int \<Rightarrow> int \<Rightarrow> 't \<times> byte \<times> byte"

text \<open>What the driver does to the outside, in order.\<close>

datatype event =
    I2CWrite int int "byte list"
  | I2CRead int int
  | PinValue bool
  | Sleep

text \<open>
  The world outside the instance: the bus, the level of pin X3 (\<open>True\<close> is
  \<open>pin.value(1)\<close>) and the log of everything done so far.
\<close>

record 't world =
  bus :: 't
  pin :: bool
  trace :: "event list"

definition pin_value :: "bool \<Rightarrow> 't world \<Rightarrow> 't world" where
  "pin_value v w = w\<lparr>pin := v, trace := trace w @ [PinValue v]\<rparr>"

definition sleep :: "'t world \<Rightarrow> 't world" where
  "sleep w = w\<lparr>trace := trace w @ [Sleep]\<rparr>"

subsection \<open>The instance and its constants\<close>

record 't INA220 =
  INA220_ADDRESS :: int
  rsense :: real
  name :: string
  SAMPLES :: int
  INA220_I2C :: "'t i2c"
  config_register :: int

definition INA220_CONFIG_RESET_VALUE :: int where
  "INA220_CONFIG_RESET_VALUE = 0x399F"

definition INA220_SHUNT_CONVERSION_FACTOR :: real where
  "INA220_SHUNT_CONVERSION_FACTOR = 0.000010"

definition INA220_VBUS_CONVERSION_FACTOR :: real where
  "INA220_VBUS_CONVERSION_FACTOR = 0.004"

definition INA220_CONFIG :: int where "INA220_CONFIG = 0x00"
definition INA220_SV :: int where "INA220_SV = 0x01"
definition INA220_BV :: int where "INA220_BV = 0x02"

definition INA220_CONFIG_BVOLTAGERANGE_32V :: int where
  "INA220_CONFIG_BVOLTAGERANGE_32V = 0x2000"
definition INA220_CONFIG_GAIN_8_320MV :: int where
  "INA220_CONFIG_GAIN_8_320MV = 0x1800"
definition INA220_CONFIG_BADCRES_12BIT :: int where
  "INA220_CONFIG_BADCRES_12BIT = 0x0400"
definition INA220_CONFIG_MODE_SANDBVOLT_CONTINUOUS :: int where
  "INA220_CONFIG_MODE_SANDBVOLT_CONTINUOUS = 0x0007"

definition INA220_SVOLT_SIGN :: int where "INA220_SVOLT_SIGN = 0x8000"
definition INA220_SVOLT_SIGN_2BYTES :: int where "INA220_SVOLT_SIGN_2BYTES = 0xFFFF"

subsection \<open>Register access\<close>

text \<open>
  \<open>write_word\<close>: the value is split into its high and low byte, sent, and the answer of
  the bus is dropped: the function returns \<open>True\<close> whatever was sent.
\<close>

definition write_word :: "'t INA220 \<Rightarrow> int \<Rightarrow> int \<Rightarrow> 't world \<Rightarrow> bool \<times> 't world" where
  "write_word self reg_addr val w =
     (let n = [word_of_int (drop_bit 8 val AND 0xFF), word_of_int (val AND 0xFF)];
          (b, bytes_sent) = writeto_mem (INA220_I2C self) (bus w) (INA220_ADDRESS self) reg_addr n
      in (True, w\<lparr>bus := b, trace := trace w @ [I2CWrite (INA220_ADDRESS self) reg_addr n]\<rparr>))"

definition read_word :: "'t INA220 \<Rightarrow> int \<Rightarrow> 't world \<Rightarrow> int \<times> 't world" where
  "read_word self reg_addr w =
     (let (b, value0, value1) = readfrom_mem (INA220_I2C self) (bus w) (INA220_ADDRESS self) reg_addr;
          output = push_bit 8 (uint value0) OR uint value1
      in (output, w\<lparr>bus := b, trace := trace w @ [I2CRead (INA220_ADDRESS self) reg_addr]\<rparr>))"

definition read_config :: "'t INA220 \<Rightarrow> 't world \<Rightarrow> int \<times> 't world" where
  "read_config self w = read_word self INA220_CONFIG w"

subsection \<open>Configuration\<close>

definition set_config :: "'t INA220 \<Rightarrow> int \<Rightarrow> 't world \<Rightarrow> bool \<times> 't world" where
  "set_config self val w =
     (let (_, w1) = write_word self INA220_CONFIG val w;
          (config_mode, w2) = read_config self w1
      in if config_mode = config_register self then (True, w2) else (False, w2))"

definition reset :: "'t INA220 \<Rightarrow> 't world \<Rightarrow> bool \<times> 't world" where
  "reset self w =
     (let (success, w1) = write_word self INA220_CONFIG 0xB99F w
      in if success then
           (let (val, w2) = read_config self w1
            in if val = INA220_CONFIG_RESET_VALUE then (True, w2) else (False, w2))
         else (False, w1))"

text \<open>\<open>config_explain\<close> only prints, and only when \<open>DEBUG\<close> is set: it changes nothing.\<close>

definition config_explain :: "'t INA220 \<Rightarrow> int \<Rightarrow> 't world \<Rightarrow> 't world" where
  "config_explain self config_value w = w"

text \<open>The constructor: pin X3 low, the fields, then reset, configure and read back.\<close>

definition INA220_init ::
  "'t i2c \<Rightarrow> int \<Rightarrow> real \<Rightarrow> string \<Rightarrow> int \<Rightarrow> 't world \<Rightarrow> 't INA220 \<times> 't world" where
  "INA220_init i2c i2c_addr rs nm samples w =
     (let w0 = pin_value False w;
          self = \<lparr>INA220_ADDRESS = i2c_addr, rsense = rs, name = nm, SAMPLES = samples,
                  INA220_I2C = i2c,
                  config_register =
                    INA220_CONFIG_MODE_SANDBVOLT_CONTINUOUS OR push_bit 3 samples OR
                    INA220_CONFIG_BADCRES_12BIT OR INA220_CONFIG_GAIN_8_320MV OR
                    INA220_CONFIG_BVOLTAGERANGE_32V\<rparr>;
          (_, w1) = reset self w0;
          (_, w2) = set_config self (config_register self) w1;
          (config_value, w3) = read_config self w2
      in (self, config_explain self config_value w3))"

subsection \<open>Measurements\<close>

definition trigger :: "'t INA220 \<Rightarrow> 't world \<Rightarrow> 't world" where
  "trigger self w = snd (write_word self INA220_CONFIG (config_register self) w)"

text \<open>
  \<open>_conversion_ready\<close>: the loop over \<open>range(10)\<close>, with the local \<open>volt\<close> carried along
  (\<open>None\<close> while it is unbound). The \<open>return True, volt\<close> is the last statement of the
  loop body, so the first iteration always leaves the function: with the value when the
  ready bit is set, with \<open>UnboundLocalError\<close> when it is not, since \<open>volt\<close> has not been
  assigned. The return after the loop is reached only for an empty range.
\<close>

fun conversion_ready_loop ::
  "'t INA220 \<Rightarrow> nat list \<Rightarrow> real option \<Rightarrow> 't world \<Rightarrow> error + ((bool \<times> real) \<times> 't world)" where
  "conversion_ready_loop self [] volt w = Inr ((False, 0), w)"
| "conversion_ready_loop self (count # rest) volt w =
     (let w1 = sleep w;
          (vbus_reg, w2) = read_word self INA220_BV w1;
          volt' = (if vbus_reg AND 0x2 \<noteq> 0
                   then Some (real_of_int (drop_bit 3 vbus_reg) * INA220_VBUS_CONVERSION_FACTOR)
                   else volt)
      in case volt' of
           None \<Rightarrow> Inl UnboundLocalError
         | Some v \<Rightarrow> Inr ((True, v), w2))"

definition conversion_ready :: "'t INA220 \<Rightarrow> 't world \<Rightarrow> error + ((bool \<times> real) \<times> 't world)" where
  "conversion_ready self w = conversion_ready_loop self [0..<10] None w"

definition read_bus_voltage :: "'t INA220 \<Rightarrow> 't world \<Rightarrow> error + ((bool \<times> real) \<times> 't world)" where
  "read_bus_voltage self w =
     (let w1 = trigger self w
      in case conversion_ready self w1 of
           Inl e \<Rightarrow> Inl e
         | Inr ((success, val), w2) \<Rightarrow>
             if success then Inr ((success, val), w2) else Inr ((False, 0), w2))"

definition read_shunt_voltage :: "'t INA220 \<Rightarrow> 't world \<Rightarrow> error + ((bool \<times> real) \<times> 't world)" where
  "read_shunt_voltage self w =
     (let w1 = trigger self w
      in case conversion_ready self w1 of
           Inl e \<Rightarrow> Inl e
         | Inr ((success, _), w2) \<Rightarrow>
             if success then
               (let w3 = pin_value True w2;
                    (vshunt_raw, w4) = read_word self INA220_SV w3;
                    w5 = pin_value False w4;
                    vshunt = vshunt_raw AND 0x7FFF;
                    vshunt = (if vshunt_raw AND INA220_SVOLT_SIGN \<noteq> 0
                              then (INA220_SVOLT_SIGN_2BYTES - vshunt_raw) + 1
                              else vshunt)
                in Inr ((True, real_of_int vshunt * INA220_SHUNT_CONVERSION_FACTOR), w5))
             else Inr ((False, 0), w2))"

definition measure_current :: "'t INA220 \<Rightarrow> 't world \<Rightarrow> error + ((bool \<times> real) \<times> 't world)" where
  "measure_current self w =
     (case read_shunt_voltage self w of
        Inl e \<Rightarrow> Inl e
      | Inr ((success, voltage), w1) \<Rightarrow>
          if rsense self = 0 then Inl ZeroDivisionError
          else Inr ((success, voltage / rsense self), w1))"

subsection \<open>Callers and test transports\<close>

text \<open>What the caller of an operation sees: the exception or the returned tuple.\<close>

definition outcome :: "'e + ('a \<times> 'w) \<Rightarrow> 'e + 'a" where
  "outcome r = map_sum id fst r"

text \<open>
  A caller that calls \<open>read_bus_voltage\<close> up to \<open>n\<close> times in a row and collects what
  each call gave; an exception ends the run.
\<close>

fun read_bus_voltage_calls ::
  "nat \<Rightarrow> 't INA220 \<Rightarrow> 't world \<Rightarrow> (error + bool \<times> real) list" where
  "read_bus_voltage_calls 0 self w = []"
| "read_bus_voltage_calls (Suc n) self w =
     (case read_bus_voltage self w of
        Inl e \<Rightarrow> [Inl e]
      | Inr (r, w') \<Rightarrow> Inr r # read_bus_voltage_calls n self w')"

text \<open>
  Reading a log: \<open>pin_after p e\<close> is the level of the pin after event \<open>e\<close> when it was
  \<open>p\<close> before, and \<open>while_high p es\<close> keeps the events of \<open>es\<close> that happen while the
  pin is high, \<open>p\<close> being the level at the start.
\<close>

fun pin_after :: "bool \<Rightarrow> event \<Rightarrow> bool" where
  "pin_after p (PinValue v) = v"
| "pin_after p e = p"

fun while_high :: "bool \<Rightarrow> event list \<Rightarrow> event list" where
  "while_high p [] = []"
| "while_high p (e # es) =
     (if p then e # while_high (pin_after p e) es else while_high (pin_after p e) es)"

text \<open>
  Two transports for concrete runs. \<open>regfile_i2c\<close> is a device that stores a two-byte
  write in the addressed register and answers a read with what the register holds.
  \<open>fixed_i2c c\<close> answers every read with the 16-bit code \<open>c\<close> and forgets every write.
\<close>

definition regfile_i2c :: "(int \<Rightarrow> byte \<times> byte) i2c" where
  "regfile_i2c =
     \<lparr>writeto_mem = (\<lambda>s addr reg data.
         (case data of [hi, lo] \<Rightarrow> s(reg := (hi, lo)) | _ \<Rightarrow> s, int (length data))),
      readfrom_mem = (\<lambda>s addr reg. (s, s reg))\<rparr>"

definition fixed_i2c :: "int \<Rightarrow> unit i2c" where
  "fixed_i2c c =
     \<lparr>writeto_mem = (\<lambda>s addr reg data. (s, int (length data))),
      readfrom_mem = (\<lambda>s addr reg. (s, word_of_int (drop_bit 8 c), word_of_int c))\<rparr>"

text \<open>A transport echoes when a read that follows a two-byte write answers those bytes.\<close>

definition echoes :: "'t i2c \<Rightarrow> bool" where
  "echoes i2c = (\<forall>s addr reg hi lo.
     snd (readfrom_mem i2c (fst (writeto_mem i2c s addr reg [hi, lo])) addr reg) = (hi, lo))"

text \<open>The world before anything has run, and the instance upyb\_supplies.py builds first.\<close>

definition power_on :: "'t \<Rightarrow> 't world" where
  "power_on b = \<lparr>bus = b, pin = False, trace = []\<rparr>"

definition INA220_LOW :: "'t i2c \<Rightarrow> 't world \<Rightarrow> 't INA220 \<times> 't world" where
  "INA220_LOW i2c w = INA220_init i2c 64 75 ''LOW'' 8 w"

text \<open>
  The register-file device at power-on with the codes \<open>bv\<close> and \<open>sv\<close> in its
  bus-voltage and shunt-voltage registers.
\<close>

definition device_holding :: "int \<Rightarrow> int \<Rightarrow> (int \<Rightarrow> byte \<times> byte) world" where
  "device_holding bv sv =
     power_on ((\<lambda>reg. (0, 0))
       (INA220_BV := (word_of_int (drop_bit 8 bv), word_of_int bv),
        INA220_SV := (word_of_int (drop_bit 8 sv), word_of_int sv)))"

text \<open>What an operation left outside: the log and the level of the pin at its end.\<close>

definition effects :: "'e + ('a \<times> 't world) \<Rightarrow> 'e + (event list \<times> bool)" where
  "effects r = map_sum id (\<lambda>(res, w'). (trace w', pin w')) r"

section \<open>Basic facts\<close>

lemmas INA220_consts =
  INA220_CONFIG_def INA220_SV_def INA220_BV_def INA220_CONFIG_RESET_VALUE_def
  INA220_SHUNT_CONVERSION_FACTOR_def INA220_VBUS_CONVERSION_FACTOR_def
  INA220_CONFIG_BVOLTAGERANGE_32V_def INA220_CONFIG_GAIN_8_320MV_def
  INA220_CONFIG_BADCRES_12BIT_def INA220_CONFIG_MODE_SANDBVOLT_CONTINUOUS_def
  INA220_SVOLT_SIGN_def INA220_SVOLT_SIGN_2BYTES_def

text \<open>Two bytes joined as \<open>read_word\<close> joins them are a 16-bit value.\<close>

lemma byte_pair_range:
  "0 \<le> push_bit 8 (uint (a::byte)) OR uint (b::byte) \<and> push_bit 8 (uint a) OR uint b < 65536"
proof -
  have a: "uint a < 256" and b: "uint b < 256"
    using uint_bounded[of a] uint_bounded[of b] by simp_all
  have pa: "push_bit 8 (uint a) < 2 ^ 16"
    using a by (simp add: push_bit_eq_mult)
  have pb: "uint b < 2 ^ 16" using b by simp
  have "0 \<le> push_bit 8 (uint a)" by simp
  from OR_upper[OF this pa pb] show ?thesis by simp
qed

text \<open>Splitting a 16-bit value as \<open>write_word\<close> does and joining the bytes gives it back.\<close>

lemma split_join:
  assumes "0 \<le> v" "v < 65536"
  shows "push_bit 8 (uint (word_of_int (drop_bit 8 v AND 0xFF) :: byte)) OR
         uint (word_of_int (v AND 0xFF) :: byte) = v"
proof -
  have m: "(0xFF::int) = mask 8" by (simp add: mask_eq_exp_minus_1)
  have v: "take_bit 16 v = v" using assms by (simp add: take_bit_int_eq_self)
  have "push_bit 8 (uint (word_of_int (drop_bit 8 v AND mask 8) :: byte)) OR
        uint (word_of_int (v AND mask 8) :: byte) = take_bit 16 v"
    by (rule bit_eqI) (auto simp add: bit_simps uint_word_of_int_eq simp flip: take_bit_eq_mask)
  thus ?thesis using v m by simp
qed

lemma write_word_eq:
  "write_word self reg_addr val w =
     (True, w\<lparr>bus := fst (writeto_mem (INA220_I2C self) (bus w) (INA220_ADDRESS self) reg_addr
                        [word_of_int (drop_bit 8 val AND 0xFF), word_of_int (val AND 0xFF)]),
              trace := trace w @ [I2CWrite (INA220_ADDRESS self) reg_addr
                        [word_of_int (drop_bit 8 val AND 0xFF), word_of_int (val AND 0xFF)]]\<rparr>)"
  by (simp add: write_word_def Let_def split_def)

lemma read_word_eq:
  "read_word self reg_addr w =
     (push_bit 8 (uint (fst (snd (readfrom_mem (INA220_I2C self) (bus w) (INA220_ADDRESS self) reg_addr)))) OR
        uint (snd (snd (readfrom_mem (INA220_I2C self) (bus w) (INA220_ADDRESS self) reg_addr))),
      w\<lparr>bus := fst (readfrom_mem (INA220_I2C self) (bus w) (INA220_ADDRESS self) reg_addr),
        trace := trace w @ [I2CRead (INA220_ADDRESS self) reg_addr]\<rparr>)"
  by (simp add: read_word_def Let_def split_def)

lemma read_word_range:
  "0 \<le> fst (read_word self reg_addr w) \<and> fst (read_word self reg_addr w) < 65536"
  by (simp only: read_word_eq fst_conv byte_pair_range)

lemma read_word_sleep: "fst (read_word self r (sleep w)) = fst (read_word self r w)"
  by (simp add: read_word_eq sleep_def)

text \<open>The instance the constructor builds depends on its arguments only.\<close>

lemma init_self:
  "fst (INA220_init i2c a r nm samples w) =
     \<lparr>INA220_ADDRESS = a, rsense = r, name = nm, SAMPLES = samples, INA220_I2C = i2c,
      config_register =
        INA220_CONFIG_MODE_SANDBVOLT_CONTINUOUS OR push_bit 3 samples OR
        INA220_CONFIG_BADCRES_12BIT OR INA220_CONFIG_GAIN_8_320MV OR
        INA220_CONFIG_BVOLTAGERANGE_32V\<rparr>"
  by (simp add: INA220_init_def Let_def split_def)

text \<open>
  The poll loop in one step: the first read of the bus-voltage register decides, and
  a code without the ready bit ends in the exception.
\<close>

lemma conversion_ready_eq:
  "conversion_ready self w =
     (if fst (read_word self INA220_BV w) AND 2 \<noteq> 0
      then Inr ((True, real_of_int (drop_bit 3 (fst (read_word self INA220_BV w))) * 0.004),
                snd (read_word self INA220_BV (sleep w)))
      else Inl UnboundLocalError)"
proof -
  have r: "[0..<10] = 0 # [1..<10]" by (simp add: upt_rec)
  show ?thesis
    unfolding conversion_ready_def r
    by (simp add: Let_def split_def read_word_sleep INA220_VBUS_CONVERSION_FACTOR_def)
qed

section \<open>Configuration\<close>

text \<open>
  C4. \<open>reset\<close> writes the pattern 0xB99F (bytes 0xB9, 0x9F) to the configuration
  register, reads the configuration register back, and returns \<open>True\<close> exactly when the
  value read back is 0x399F, \<open>False\<close> for any other value. It returns for every answer
  of the transport: the model of \<open>reset\<close> has no exception branch.
\<close>

theorem reset_iff_readback:
  assumes "readfrom_mem (INA220_I2C self)
             (fst (writeto_mem (INA220_I2C self) (bus w) (INA220_ADDRESS self) INA220_CONFIG [0xB9, 0x9F]))
             (INA220_ADDRESS self) INA220_CONFIG = (b, hi, lo)"
  shows "reset self w =
           (push_bit 8 (uint hi) OR uint lo = 0x399F,
            w\<lparr>bus := b,
              trace := trace w @ [I2CWrite (INA220_ADDRESS self) INA220_CONFIG [0xB9, 0x9F],
                                  I2CRead (INA220_ADDRESS self) INA220_CONFIG]\<rparr>)"
  using assms
  by (simp add: reset_def read_config_def write_word_eq read_word_eq INA220_CONFIG_def
      INA220_CONFIG_RESET_VALUE_def)

theorem reset_iff_readback_witness:
  "reset (fst (INA220_LOW (fixed_i2c 0x399F) (power_on ()))) (power_on ()) =
     (True, \<lparr>bus = (), pin = False, trace = [I2CWrite 64 0 [0xB9, 0x9F], I2CRead 64 0]\<rparr>) \<and>
   reset (fst (INA220_LOW (fixed_i2c 0x3C47) (power_on ()))) (power_on ()) =
     (False, \<lparr>bus = (), pin = False, trace = [I2CWrite 64 0 [0xB9, 0x9F], I2CRead 64 0]\<rparr>)"
  using reset_iff_readback [of "fst (INA220_LOW (fixed_i2c 0x399F) (power_on ()))" "power_on ()" "()" "0x39" "0x9F"]
    reset_iff_readback [of "fst (INA220_LOW (fixed_i2c 0x3C47) (power_on ()))" "power_on ()" "()" "0x3C" "0x47"]
  by (simp add: INA220_LOW_def init_self fixed_i2c_def power_on_def INA220_CONFIG_def)

text \<open>
  C10. \<open>write_word\<close> returns \<open>True\<close> for every register, value and transport, whatever
  the transport reports as sent. So the write step of \<open>reset\<close> and of \<open>set_config\<close>
  never signals failure: what each returns is the comparison of the value read back,
  and nothing else.
\<close>

theorem write_word_always_true:
  "fst (write_word self reg_addr val w) = True \<and>
   fst (reset self w) =
     (fst (read_config self (snd (write_word self INA220_CONFIG 0xB99F w))) = INA220_CONFIG_RESET_VALUE) \<and>
   fst (set_config self v w) =
     (fst (read_config self (snd (write_word self INA220_CONFIG v w))) = config_register self)"
  by (simp add: write_word_def reset_def set_config_def Let_def split_def)

text \<open>
  C2. Against a transport that echoes what was written, \<open>set_config v\<close> on a 16-bit
  \<open>v\<close> returns \<open>True\<close> exactly when \<open>v\<close> is the configuration value the constructor
  composed (continuous shunt and bus mode, the sample selector shifted by 3, 12-bit bus
  resolution, gain 8, 32 V range): the read-back is compared with that value, not with
  the value written.
\<close>

theorem set_config_echo_iff:
  assumes "echoes i2c" and "0 \<le> v" and "v < 65536"
  shows "fst (set_config (fst (INA220_init i2c a r nm samples w0)) v w) =
           (v = INA220_CONFIG_MODE_SANDBVOLT_CONTINUOUS OR push_bit 3 samples OR
                INA220_CONFIG_BADCRES_12BIT OR INA220_CONFIG_GAIN_8_320MV OR
                INA220_CONFIG_BVOLTAGERANGE_32V)"
proof -
  let ?self = "fst (INA220_init i2c a r nm samples w0)"
  let ?hi = "word_of_int (drop_bit 8 v AND 0xFF) :: byte"
  let ?lo = "word_of_int (v AND 0xFF) :: byte"
  have rb: "snd (readfrom_mem i2c (fst (writeto_mem i2c (bus w) a INA220_CONFIG [?hi, ?lo]))
              a INA220_CONFIG) = (?hi, ?lo)"
    using assms(1) by (simp add: echoes_def)
  have "fst (read_config ?self (snd (write_word ?self INA220_CONFIG v w))) = v"
    using rb split_join [OF assms(2,3)]
    by (simp add: read_config_def read_word_eq write_word_eq init_self)
  then show ?thesis
    by (simp add: set_config_def Let_def split_def init_self)
qed

text \<open>
  On the register-file device the instance of upyb\_supplies.py (selector 8, so the
  composed value is 0x3C47) accepts 0x3C47 and reports failure for 0x399F, although the
  device stored 0x399F and answers it on the read-back.
\<close>

theorem set_config_echo_iff_witness:
  "echoes regfile_i2c \<and> (0::int) \<le> 0x3C47 \<and> (0x3C47::int) < 65536 \<and>
   fst (set_config (fst (INA220_LOW regfile_i2c (power_on (\<lambda>r. (0, 0))))) 0x3C47 (power_on (\<lambda>r. (0, 0)))) = True \<and>
   fst (set_config (fst (INA220_LOW regfile_i2c (power_on (\<lambda>r. (0, 0))))) 0x399F (power_on (\<lambda>r. (0, 0)))) = False \<and>
   fst (read_config (fst (INA220_LOW regfile_i2c (power_on (\<lambda>r. (0, 0)))))
     (snd (set_config (fst (INA220_LOW regfile_i2c (power_on (\<lambda>r. (0, 0))))) 0x399F (power_on (\<lambda>r. (0, 0)))))) = 0x399F"
proof -
  let ?w = "power_on (\<lambda>r. (0, 0)) :: (int \<Rightarrow> byte \<times> byte) world"
  have e: "echoes regfile_i2c"
    by (simp add: echoes_def regfile_i2c_def)
  have t: "fst (set_config (fst (INA220_LOW regfile_i2c ?w)) 0x3C47 ?w) = True"
    using set_config_echo_iff [OF e, of "0x3C47" 64 75 "''LOW''" 8 ?w ?w]
    by (simp add: INA220_LOW_def INA220_consts)
  have f: "fst (set_config (fst (INA220_LOW regfile_i2c ?w)) 0x399F ?w) = False"
    using set_config_echo_iff [OF e, of "0x399F" 64 75 "''LOW''" 8 ?w ?w]
    by (simp add: INA220_LOW_def INA220_consts)
  have r: "fst (read_config (fst (INA220_LOW regfile_i2c ?w))
             (snd (set_config (fst (INA220_LOW regfile_i2c ?w)) 0x399F ?w))) = 0x399F"
    by (simp add: INA220_LOW_def set_config_def read_config_def read_word_eq
        write_word_eq init_self regfile_i2c_def power_on_def INA220_consts)
  show ?thesis using e t f r by simp
qed

section \<open>Measurements\<close>

text \<open>\<open>read_shunt_voltage\<close> in one step, in terms of the two register reads.\<close>

lemma read_shunt_voltage_eq:
  "read_shunt_voltage self w =
     (if fst (read_word self INA220_BV (trigger self w)) AND 2 \<noteq> 0
      then Inr ((True,
                 real_of_int
                   (if fst (read_word self INA220_SV (snd (read_word self INA220_BV (trigger self w)))) AND 0x8000 \<noteq> 0
                    then (0xFFFF - fst (read_word self INA220_SV (snd (read_word self INA220_BV (trigger self w))))) + 1
                    else fst (read_word self INA220_SV (snd (read_word self INA220_BV (trigger self w)))) AND 0x7FFF)
                 * 0.000010),
                pin_value False (snd (read_word self INA220_SV
                  (pin_value True (snd (read_word self INA220_BV (sleep (trigger self w))))))))
      else Inl UnboundLocalError)"
  by (simp add: read_shunt_voltage_def conversion_ready_eq Let_def split_def read_word_eq
      pin_value_def sleep_def INA220_consts)

text \<open>What the two test transports answer.\<close>

lemma fixed_read:
  "fst (read_word (fst (INA220_LOW (fixed_i2c c) w0)) r w) =
     push_bit 8 (uint (word_of_int (drop_bit 8 c) :: byte)) OR uint (word_of_int c :: byte)"
  by (simp add: read_word_eq INA220_LOW_def init_self fixed_i2c_def)

lemma device_reads:
  "fst (read_word (fst (INA220_LOW regfile_i2c w0)) INA220_BV
     (trigger (fst (INA220_LOW regfile_i2c w0)) (device_holding bv sv))) =
     push_bit 8 (uint (word_of_int (drop_bit 8 bv) :: byte)) OR uint (word_of_int bv :: byte)"
  "fst (read_word (fst (INA220_LOW regfile_i2c w0)) INA220_SV
     (snd (read_word (fst (INA220_LOW regfile_i2c w0)) INA220_BV
       (trigger (fst (INA220_LOW regfile_i2c w0)) (device_holding bv sv))))) =
     push_bit 8 (uint (word_of_int (drop_bit 8 sv) :: byte)) OR uint (word_of_int sv :: byte)"
  by (simp_all add: read_word_eq write_word_eq trigger_def INA220_LOW_def init_self regfile_i2c_def
      device_holding_def power_on_def INA220_consts)

text \<open>A 16-bit code without bit 15 is its own low 15 bits.\<close>

lemma mask_off_sign:
  assumes "0 \<le> raw" "raw < 65536" "raw AND 0x8000 = 0"
  shows "raw AND 0x7FFF = (raw::int)"
proof -
  have a: "(0x7FFF::int) = mask 15" by (simp add: mask_eq_exp_minus_1)
  have b: "(0x8000::int) = push_bit 15 1" by simp
  have t: "take_bit 16 raw = raw" using assms by (simp add: take_bit_int_eq_self)
  have "\<not> bit raw 15"
  proof
    assume "bit raw 15"
    then have "bit (raw AND push_bit 15 1) 15" by (simp add: bit_simps)
    then show False using assms(3) unfolding b by simp
  qed
  then have "n < 16 \<Longrightarrow> bit raw n \<Longrightarrow> n < 15" for n
    by (cases "n = 15") auto
  then have "take_bit 15 raw = take_bit 16 raw"
    by (auto intro!: bit_eqI simp add: bit_simps)
  then show ?thesis using t by (simp add: a take_bit_eq_mask)
qed

subsection \<open>The poll that finds the ready bit clear\<close>

text \<open>
  C3. The claim: when the ready bit (bit 1) of the bus-voltage code is never set,
  \<open>read_bus_voltage\<close> uses up its ten polls and returns \<open>(False, 0)\<close>. The code: the
  first poll already ends the loop, and with the ready bit clear \<open>volt\<close> is unbound at
  \<open>return True, volt\<close>, so the call raises \<open>UnboundLocalError\<close> and returns nothing.
\<close>

theorem read_bus_voltage_not_ready:
  assumes "fst (read_word self INA220_BV (trigger self w)) AND 2 = 0"
  shows "read_bus_voltage self w = Inl UnboundLocalError"
  using assms by (simp add: read_bus_voltage_def conversion_ready_eq)

theorem read_bus_voltage_not_ready_witness:
  "fst (read_word (fst (INA220_LOW (fixed_i2c 0) (power_on ()))) INA220_BV
      (trigger (fst (INA220_LOW (fixed_i2c 0) (power_on ()))) (power_on ()))) AND 2 = 0 \<and>
   read_bus_voltage (fst (INA220_LOW (fixed_i2c 0) (power_on ()))) (power_on ()) = Inl UnboundLocalError"
proof -
  have h: "fst (read_word (fst (INA220_LOW (fixed_i2c 0) (power_on ()))) INA220_BV
      (trigger (fst (INA220_LOW (fixed_i2c 0) (power_on ()))) (power_on ()))) AND 2 = 0"
    by (simp add: fixed_read)
  from h read_bus_voltage_not_ready [OF h] show ?thesis by simp
qed

text \<open>
  C1. The claim: with a transport that always returns, no public operation raises. The
  code: against a transport that answers every read with 0x0000 (so the ready bit is
  clear), \<open>read_bus_voltage\<close>, \<open>read_shunt_voltage\<close> and \<open>measure_current\<close> all end in
  \<open>UnboundLocalError\<close>, raised by \<open>_conversion_ready\<close>.
\<close>

theorem operations_raise_when_not_ready:
  "outcome (read_bus_voltage (fst (INA220_LOW (fixed_i2c 0) (power_on ()))) (power_on ())) = Inl UnboundLocalError \<and>
   outcome (read_shunt_voltage (fst (INA220_LOW (fixed_i2c 0) (power_on ()))) (power_on ())) = Inl UnboundLocalError \<and>
   outcome (measure_current (fst (INA220_LOW (fixed_i2c 0) (power_on ()))) (power_on ())) = Inl UnboundLocalError"
  by (simp add: outcome_def read_bus_voltage_def measure_current_def read_shunt_voltage_eq
      conversion_ready_eq fixed_read)

subsection \<open>Bus voltage\<close>

text \<open>
  C6. When the poll of the bus-voltage register answers a code \<open>c\<close> with the ready bit
  set, \<open>read_bus_voltage\<close> returns \<open>True\<close> with \<open>c\<close> shifted right by 3 bits times the
  4 mV factor; the code 0x1002 gives 512 * 0.004 = 2.048 volts.
\<close>

theorem read_bus_voltage_ready:
  assumes "fst (read_word self INA220_BV (trigger self w)) = c" and "c AND 2 \<noteq> 0"
  shows "outcome (read_bus_voltage self w) = Inr (True, real_of_int (drop_bit 3 c) * 0.004) \<and>
         (c = 0x1002 \<longrightarrow> outcome (read_bus_voltage self w) = Inr (True, 512 * 0.004) \<and>
            (512 * 0.004 :: real) = 2.048)"
  using assms by (auto simp add: read_bus_voltage_def conversion_ready_eq outcome_def)

theorem read_bus_voltage_ready_witness:
  "outcome (read_bus_voltage (fst (INA220_LOW (fixed_i2c 0x1002) (power_on ()))) (power_on ())) =
     Inr (True, 2.048)"
proof -
  let ?self = "fst (INA220_LOW (fixed_i2c 0x1002) (power_on ()))"
  have h: "fst (read_word ?self INA220_BV (trigger ?self (power_on ()))) = 0x1002"
    by (simp add: fixed_read)
  have r: "(0x1002::int) AND 2 \<noteq> 0" by simp
  from read_bus_voltage_ready [OF h r] show ?thesis by simp
qed

text \<open>
  C8. Against a transport that answers every read of the bus-voltage register with one
  code \<open>c\<close> that has the ready bit set, any number of calls of \<open>read_bus_voltage\<close> in a
  row all return the same pair: \<open>True\<close> and the voltage of \<open>c\<close>.
\<close>

theorem read_bus_voltage_idempotent:
  assumes "\<forall>w. fst (read_word self INA220_BV w) = c" and "c AND 2 \<noteq> 0"
  shows "read_bus_voltage_calls n self w =
           replicate n (Inr (True, real_of_int (drop_bit 3 c) * 0.004))"
  using assms
  by (induction n arbitrary: w) (simp_all add: read_bus_voltage_def conversion_ready_eq)

theorem read_bus_voltage_idempotent_witness:
  "read_bus_voltage_calls 3 (fst (INA220_LOW (fixed_i2c 0x1002) (power_on ()))) (power_on ()) =
     [Inr (True, 2.048), Inr (True, 2.048), Inr (True, 2.048)]"
proof -
  let ?self = "fst (INA220_LOW (fixed_i2c 0x1002) (power_on ()))"
  have h: "\<forall>w. fst (read_word ?self INA220_BV w) = 0x1002"
    by (simp add: fixed_read)
  have r: "(0x1002::int) AND 2 \<noteq> 0" by simp
  from read_bus_voltage_idempotent [OF h r, of 3 "power_on ()"] show ?thesis
    by (simp add: numeral_3_eq_3)
qed

subsection \<open>Shunt voltage and current\<close>

text \<open>
  C5, as the code has it. When the poll finds the ready bit set and the shunt register
  answers \<open>raw\<close>, the magnitude is \<open>raw\<close> without bit 15, or \<open>(0xFFFF - raw) + 1\<close> when
  bit 15 is set; it is never negative (and positive unless \<open>raw\<close> is 0), and
  \<open>read_shunt_voltage\<close> returns \<open>True\<close> with the magnitude times the 10 microvolt
  factor. The code 0x0064 gives 100 and 0.001 volts; the code 0x8064 gives
  \<open>(0xFFFF - 0x8064) + 1 = 32668\<close> and 0.32668 volts, with no sign on the result.
\<close>

theorem read_shunt_voltage_decode:
  assumes "fst (read_word self INA220_BV (trigger self w)) AND 2 \<noteq> 0"
    and "fst (read_word self INA220_SV (snd (read_word self INA220_BV (trigger self w)))) = raw"
    and "mag = (if raw AND 0x8000 \<noteq> 0 then (0xFFFF - raw) + 1 else raw AND 0x7FFF)"
  shows "outcome (read_shunt_voltage self w) = Inr (True, real_of_int mag * 0.000010) \<and>
         0 \<le> mag \<and> (raw \<noteq> 0 \<longrightarrow> 0 < mag) \<and>
         (raw = 0x0064 \<longrightarrow> mag = 100 \<and> real_of_int mag * 0.000010 = 0.001) \<and>
         (raw = 0x8064 \<longrightarrow> mag = 32668 \<and> real_of_int mag * 0.000010 = 0.32668)"
proof -
  have rng: "0 \<le> raw \<and> raw < 65536"
    using read_word_range [of self INA220_SV "snd (read_word self INA220_BV (trigger self w))"] assms(2)
    by simp
  have out: "outcome (read_shunt_voltage self w) = Inr (True, real_of_int mag * 0.000010)"
    using assms by (simp add: outcome_def read_shunt_voltage_eq)
  have pos: "0 \<le> mag \<and> (raw \<noteq> 0 \<longrightarrow> 0 < mag)"
  proof (cases "raw AND 0x8000 = 0")
    case True
    then have "mag = raw" using assms(3) rng mask_off_sign by simp
    then show ?thesis using rng by simp
  next
    case False
    then have "mag = (0xFFFF - raw) + 1" using assms(3) by simp
    then show ?thesis using rng by simp
  qed
  have c1: "raw = 0x0064 \<longrightarrow> mag = 100 \<and> real_of_int mag * 0.000010 = 0.001"
    using assms(3) by simp
  have c2: "raw = 0x8064 \<longrightarrow> mag = 32668 \<and> real_of_int mag * 0.000010 = 0.32668"
    using assms(3) by simp
  show ?thesis using out pos c1 c2 by blast
qed

theorem read_shunt_voltage_decode_witness:
  "outcome (read_shunt_voltage (fst (INA220_LOW regfile_i2c (device_holding 0x1002 0x0064)))
      (device_holding 0x1002 0x0064)) = Inr (True, 0.001) \<and>
   outcome (read_shunt_voltage (fst (INA220_LOW regfile_i2c (device_holding 0x1002 0x8064)))
      (device_holding 0x1002 0x8064)) = Inr (True, 0.32668)"
proof -
  let ?p = "fst (INA220_LOW regfile_i2c (device_holding 0x1002 0x0064))"
  let ?n = "fst (INA220_LOW regfile_i2c (device_holding 0x1002 0x8064))"
  have p1: "fst (read_word ?p INA220_BV (trigger ?p (device_holding 0x1002 0x0064))) AND 2 \<noteq> 0"
    by (simp add: device_reads)
  have p2: "fst (read_word ?p INA220_SV (snd (read_word ?p INA220_BV
              (trigger ?p (device_holding 0x1002 0x0064))))) = 0x0064"
    by (simp add: device_reads)
  have p3: "(100::int) =
              (if (0x0064::int) AND 0x8000 \<noteq> 0 then (0xFFFF - 0x0064) + 1 else (0x0064::int) AND 0x7FFF)"
    by simp
  have n1: "fst (read_word ?n INA220_BV (trigger ?n (device_holding 0x1002 0x8064))) AND 2 \<noteq> 0"
    by (simp add: device_reads)
  have n2: "fst (read_word ?n INA220_SV (snd (read_word ?n INA220_BV
              (trigger ?n (device_holding 0x1002 0x8064))))) = 0x8064"
    by (simp add: device_reads)
  have n3: "(32668::int) =
              (if (0x8064::int) AND 0x8000 \<noteq> 0 then (0xFFFF - 0x8064) + 1 else (0x8064::int) AND 0x7FFF)"
    by simp
  from read_shunt_voltage_decode [OF p1 p2 p3] read_shunt_voltage_decode [OF n1 n2 n3]
  show ?thesis by simp
qed

text \<open>
  The claim as written gives magnitude 32669 and 0.32669 volts for the code 0x8064.
  On the device holding that code the driver returns 0.32668 volts, since
  \<open>0xFFFF - 0x8064 = 0x7F9B\<close> and one more is \<open>0x7F9C = 32668\<close>.
\<close>

theorem shunt_decode_8064_counterexample:
  "outcome (read_shunt_voltage (fst (INA220_LOW regfile_i2c (device_holding 0x1002 0x8064)))
      (device_holding 0x1002 0x8064)) = Inr (True, 0.32668) \<and>
   (0xFFFF - 0x8064) + 1 = (32668::int) \<and>
   outcome (read_shunt_voltage (fst (INA220_LOW regfile_i2c (device_holding 0x1002 0x8064)))
      (device_holding 0x1002 0x8064)) \<noteq> Inr (True, 0.32669)"
  by (simp add: outcome_def read_shunt_voltage_eq device_reads)

text \<open>
  C7. Whatever pair \<open>(s, v)\<close> \<open>read_shunt_voltage\<close> returns, \<open>measure_current\<close> returns
  \<open>(s, v / rsense)\<close> when the shunt resistance is not zero: the flag is passed on
  unchanged. With 0.001 volts across 75 ohms that is 0.001 / 75, about 1.333e-5 amps.
\<close>

theorem measure_current_ohm:
  assumes "read_shunt_voltage self w = Inr ((s, v), w')" and "rsense self \<noteq> 0"
  shows "measure_current self w = Inr ((s, v / rsense self), w')"
  using assms by (simp add: measure_current_def)

theorem measure_current_ohm_witness:
  "outcome (measure_current (fst (INA220_LOW regfile_i2c (device_holding 0x1002 0x0064)))
      (device_holding 0x1002 0x0064)) = Inr (True, 0.001 / 75) \<and>
   \<bar>0.001 / 75 - 0.00001333\<bar> < (0.00000001::real)"
proof -
  let ?self = "fst (INA220_LOW regfile_i2c (device_holding 0x1002 0x0064))"
  let ?w = "device_holding 0x1002 0x0064"
  let ?w' = "pin_value False (snd (read_word ?self INA220_SV
               (pin_value True (snd (read_word ?self INA220_BV (sleep (trigger ?self ?w)))))))"
  have h: "read_shunt_voltage ?self ?w = Inr ((True, 0.001), ?w')"
    by (simp add: read_shunt_voltage_eq device_reads)
  have r: "rsense ?self \<noteq> 0" "rsense ?self = 75"
    by (simp_all add: INA220_LOW_def init_self)
  from measure_current_ohm [OF h r(1)] r(2) show ?thesis
    by (simp add: outcome_def)
qed

subsection \<open>The strobe pin\<close>

text \<open>The constructor leaves the pin low, and the configuration operations keep its level.\<close>

lemma pin_low_after_init: "\<not> pin (snd (INA220_init i2c a r nm samples w))"
  by (simp add: INA220_init_def Let_def split_def config_explain_def read_config_def reset_def
      set_config_def read_word_eq write_word_eq pin_value_def)

lemma pin_kept:
  "pin (snd (reset self w)) = pin w"
  "pin (snd (set_config self v w)) = pin w"
  by (simp_all add: reset_def set_config_def read_config_def read_word_eq write_word_eq)

text \<open>A measurement that returns leaves the pin low if it found it low.\<close>

lemma pin_low_kept:
  "read_bus_voltage self w = Inr (r, w') \<Longrightarrow> pin w' = pin w"
  "read_shunt_voltage self w = Inr (r, w') \<Longrightarrow> \<not> pin w'"
  "measure_current self w = Inr (r, w') \<Longrightarrow> \<not> pin w'"
  by (auto simp add: read_bus_voltage_def measure_current_def read_shunt_voltage_eq
      conversion_ready_eq read_word_eq write_word_eq trigger_def sleep_def pin_value_def
      Let_def split: if_splits sum.splits prod.splits)

text \<open>
  C9. In a run of \<open>read_shunt_voltage\<close> that gets to the shunt register (the poll found
  the ready bit set), entered with the pin low as every operation of the driver leaves
  it, the operation does exactly this, in order: the trigger write, the sleep, the
  bus-voltage read, pin high, the shunt read, pin low. The only events that happen while
  the pin is high are the shunt read and the falling edge, and the pin is low at the end.
\<close>

theorem strobe_brackets_shunt_read:
  assumes "fst (read_word self INA220_BV (trigger self w)) AND 2 \<noteq> 0" and "\<not> pin w"
  shows "effects (read_shunt_voltage self w) =
           Inr (trace w @
                  [I2CWrite (INA220_ADDRESS self) INA220_CONFIG
                     [word_of_int (drop_bit 8 (config_register self) AND 0xFF),
                      word_of_int (config_register self AND 0xFF)],
                   Sleep,
                   I2CRead (INA220_ADDRESS self) INA220_BV,
                   PinValue True,
                   I2CRead (INA220_ADDRESS self) INA220_SV,
                   PinValue False],
                False) \<and>
         while_high (pin w)
           [I2CWrite (INA220_ADDRESS self) INA220_CONFIG
              [word_of_int (drop_bit 8 (config_register self) AND 0xFF),
               word_of_int (config_register self AND 0xFF)],
            Sleep,
            I2CRead (INA220_ADDRESS self) INA220_BV,
            PinValue True,
            I2CRead (INA220_ADDRESS self) INA220_SV,
            PinValue False] =
           [I2CRead (INA220_ADDRESS self) INA220_SV, PinValue False]"
proof -
  let ?w' = "pin_value False (snd (read_word self INA220_SV
               (pin_value True (snd (read_word self INA220_BV (sleep (trigger self w)))))))"
  from assms(1) obtain r where run: "read_shunt_voltage self w = Inr (r, ?w')"
    by (simp add: read_shunt_voltage_eq)
  have log: "trace ?w' = trace w @
               [I2CWrite (INA220_ADDRESS self) INA220_CONFIG
                  [word_of_int (drop_bit 8 (config_register self) AND 0xFF),
                   word_of_int (config_register self AND 0xFF)],
                Sleep,
                I2CRead (INA220_ADDRESS self) INA220_BV,
                PinValue True,
                I2CRead (INA220_ADDRESS self) INA220_SV,
                PinValue False]"
    by (simp add: read_word_eq write_word_eq trigger_def pin_value_def sleep_def)
  have low: "\<not> pin ?w'"
    by (simp add: pin_value_def)
  have eff: "effects (read_shunt_voltage self w) = Inr (trace ?w', False)"
    using run low by (simp add: effects_def)
  show ?thesis
    using assms(2) by (simp add: eff log)
qed

theorem strobe_brackets_shunt_read_witness:
  "effects (read_shunt_voltage (fst (INA220_LOW regfile_i2c (device_holding 0x1002 0x0064)))
      (device_holding 0x1002 0x0064)) =
     Inr ([I2CWrite 64 0 [0x3C, 0x47], Sleep, I2CRead 64 2,
           PinValue True, I2CRead 64 1, PinValue False], False) \<and>
   while_high False
     [I2CWrite 64 0 [0x3C, 0x47], Sleep, I2CRead 64 2,
      PinValue True, I2CRead 64 1, PinValue False] =
     [I2CRead 64 1, PinValue False]"
proof -
  let ?self = "fst (INA220_LOW regfile_i2c (device_holding 0x1002 0x0064))"
  let ?w = "device_holding 0x1002 0x0064"
  have h: "fst (read_word ?self INA220_BV (trigger ?self ?w)) AND 2 \<noteq> 0"
    by (simp add: device_reads)
  have p: "\<not> pin ?w"
    by (simp add: device_holding_def power_on_def)
  from strobe_brackets_shunt_read [OF h p] show ?thesis
    by (simp add: INA220_LOW_def init_self device_holding_def power_on_def INA220_consts)
qed

end
